theory Spec2Isabelle
  imports Complex_Main
begin

section \<open>Smart Video Speed Controller: data model\<close>

text \<open>
  The Python sources compute with \<^verbatim>\<open>float\<close>. In the scheduler, times, speeds
  and durations are modelled as exact reals: comparisons, \<^verbatim>\<open>max\<close>,
  \<^verbatim>\<open>min\<close> and the passing around of a value are the same on both; rounding of
  sums and quotients, infinities and NaN are outside the model of the scheduler.
  The parser is modelled on the binary64 values themselves, with their rounding,
  the infinities and NaN (type \<open>pyfloat\<close> below).
\<close>

text \<open>
  A Python \<^verbatim>\<open>str\<close> is a sequence of Unicode code points; \<open>str\<close> turns a
  literal of this theory into one.
\<close>

type_synonym pystr = "nat list"

definition str :: "string \<Rightarrow> pystr" where
  "str s = map of_char s"

text \<open>The exceptions the modelled code raises (src/src/exceptions.py and builtins).\<close>

datatype error =
    ValueError
  | ZeroDivisionError
  | FileNotFoundError
  | RuntimeError
  | ValidationError
  | SubtitleExtractionError
  | VideoProcessingError

text \<open>
  models.py, \<^verbatim>\<open>SubtitleSegment\<close>. The type of the two times is a parameter:
  the parser produces binary64 values, the scheduler is stated over the reals.
\<close>

record 't subtitle_segment =
  start_time :: 't
  end_time :: 't
  text_of :: pystr

text \<open>
  models.py, \<^verbatim>\<open>VideoSegment\<close>. Its fields \<^verbatim>\<open>start_time\<close> and
  \<^verbatim>\<open>end_time\<close> carry the prefix \<open>seg_\<close> here, to keep them apart from the
  fields of a subtitle segment.
\<close>

record video_segment =
  seg_start_time :: real
  seg_end_time :: real
  speed :: real
  has_subtitle :: bool

definition VideoSegment :: "real \<Rightarrow> real \<Rightarrow> real \<Rightarrow> bool \<Rightarrow> video_segment" where
  "VideoSegment s e v h =
     \<lparr>seg_start_time = s, seg_end_time = e, speed = v, has_subtitle = h\<rparr>"

definition duration :: "video_segment \<Rightarrow> real" where
  "duration seg = seg_end_time seg - seg_start_time seg"

text \<open>\<^verbatim>\<open>VideoSegment.output_duration\<close>: the division raises on a zero speed.\<close>

definition output_duration :: "video_segment \<Rightarrow> error + real" where
  "output_duration seg =
     (if speed seg = 0 then Inl ZeroDivisionError else Inr (duration seg / speed seg))"

section \<open>processor.py: \<^verbatim>\<open>VideoSpeedProcessor\<close>\<close>

record processor =
  input_file :: string
  output_file :: string
  speed_no_subtitle :: real
  speed_with_subtitle :: real
  subtitle_buffer :: real

text \<open>
  \<^verbatim>\<open>_validate_inputs\<close>. Whether the input file exists and whether FFmpeg is
  installed are facts of the environment, passed in as booleans.
\<close>

definition validate_inputs :: "bool \<Rightarrow> bool \<Rightarrow> processor \<Rightarrow> error + unit" where
  "validate_inputs input_exists ffmpeg_installed p =
     (if \<not> input_exists then Inl FileNotFoundError
      else if \<not> ffmpeg_installed then Inl RuntimeError
      else if speed_no_subtitle p \<le> 0 \<or> speed_with_subtitle p \<le> 0 then Inl ValidationError
      else if subtitle_buffer p < 0 then Inl ValidationError
      else Inr ())"

text \<open>\<^verbatim>\<open>__init__\<close>: store the five arguments, then validate.\<close>

definition init_processor ::
  "bool \<Rightarrow> bool \<Rightarrow> string \<Rightarrow> string \<Rightarrow> real \<Rightarrow> real \<Rightarrow> real \<Rightarrow> error + processor" where
  "init_processor input_exists ffmpeg_installed inp outp s_no s_with buf =
     (let p = \<lparr>input_file = inp, output_file = outp, speed_no_subtitle = s_no,
                speed_with_subtitle = s_with, subtitle_buffer = buf\<rparr>
      in case validate_inputs input_exists ffmpeg_installed p of
           Inl e \<Rightarrow> Inl e
         | Inr _ \<Rightarrow> Inr p)"

definition calculate_subtitle_start :: "processor \<Rightarrow> real \<Rightarrow> real" where
  "calculate_subtitle_start p subtitle_start = max 0 (subtitle_start - subtitle_buffer p)"

definition calculate_subtitle_end :: "processor \<Rightarrow> real \<Rightarrow> real \<Rightarrow> real" where
  "calculate_subtitle_end p subtitle_end video_duration =
     min video_duration (subtitle_end + subtitle_buffer p)"

definition create_non_subtitle_segment :: "processor \<Rightarrow> real \<Rightarrow> real \<Rightarrow> video_segment" where
  "create_non_subtitle_segment p s e = VideoSegment s e (speed_no_subtitle p) False"

definition create_subtitle_segment :: "processor \<Rightarrow> real \<Rightarrow> real \<Rightarrow> video_segment" where
  "create_subtitle_segment p s e = VideoSegment s e (speed_with_subtitle p) True"

text \<open>
  The \<^verbatim>\<open>for subtitle in subtitles\<close> loop of \<^verbatim>\<open>_create_video_segments\<close>,
  threading the two locals \<^verbatim>\<open>segments\<close> and \<^verbatim>\<open>current_time\<close>.
\<close>

fun segments_loop ::
  "processor \<Rightarrow> real \<Rightarrow> real subtitle_segment list \<Rightarrow> video_segment list \<Rightarrow> real
     \<Rightarrow> video_segment list \<times> real" where
  "segments_loop p video_duration [] segments current_time = (segments, current_time)"
| "segments_loop p video_duration (subtitle # subtitles) segments current_time =
     (let sub_start = calculate_subtitle_start p (start_time subtitle);
          sub_end = calculate_subtitle_end p (end_time subtitle) video_duration;
          segments1 = (if current_time < sub_start
                       then segments @ [create_non_subtitle_segment p current_time sub_start]
                       else segments);
          segments2 = segments1 @ [create_subtitle_segment p sub_start sub_end]
      in segments_loop p video_duration subtitles segments2 sub_end)"

definition create_video_segments ::
  "processor \<Rightarrow> real subtitle_segment list \<Rightarrow> real \<Rightarrow> video_segment list" where
  "create_video_segments p subtitles video_duration =
     (case segments_loop p video_duration subtitles [] 0 of
        (segments, current_time) \<Rightarrow>
          if current_time < video_duration
          then segments @ [create_non_subtitle_segment p current_time video_duration]
          else segments)"

text \<open>
  The duration estimate of \<^verbatim>\<open>_print_segment_info\<close>:
  \<^verbatim>\<open>sum(seg.output_duration for seg in segments)\<close> adds from the left,
  starting at 0, and stops at the first exception.
\<close>

fun sum_output_durations :: "real \<Rightarrow> video_segment list \<Rightarrow> error + real" where
  "sum_output_durations acc [] = Inr acc"
| "sum_output_durations acc (seg # segs) =
     (case output_duration seg of
        Inl e \<Rightarrow> Inl e
      | Inr d \<Rightarrow> sum_output_durations (acc + d) segs)"

text \<open>
  \<^verbatim>\<open>_print_segment_info\<close> returns the two numbers it prints: the estimated
  output duration and the percentage of time saved.
\<close>

definition segment_info :: "video_segment list \<Rightarrow> real \<Rightarrow> error + (real \<times> real)" where
  "segment_info segments video_duration =
     (case sum_output_durations 0 segments of
        Inl e \<Rightarrow> Inl e
      | Inr out \<Rightarrow>
          if video_duration = 0 then Inl ZeroDivisionError
          else Inr (out, (1 - out / video_duration) * 100))"

text \<open>The catalog invariant of the specification, section 3.\<close>

definition catalog_invariant :: "real subtitle_segment list \<Rightarrow> bool" where
  "catalog_invariant subs \<longleftrightarrow>
     list_all (\<lambda>s. start_time s < end_time s) subs \<and> sorted (map start_time subs)"

text \<open>Exact adjacency: each segment ends where the next one starts.\<close>

fun adjacent :: "video_segment list \<Rightarrow> bool" where
  "adjacent (a # b # rest) \<longleftrightarrow> seg_end_time a = seg_start_time b \<and> adjacent (b # rest)"
| "adjacent _ \<longleftrightarrow> True"

text \<open>No two neighbours are both segments without subtitle.\<close>

fun no_adjacent_plain :: "video_segment list \<Rightarrow> bool" where
  "no_adjacent_plain (a # b # rest) \<longleftrightarrow>
     (has_subtitle a \<or> has_subtitle b) \<and> no_adjacent_plain (b # rest)"
| "no_adjacent_plain _ \<longleftrightarrow> True"

text \<open>
  The scheduler as the specification names it,
  \<^verbatim>\<open>schedule(catalog, bufferSeconds, totalDuration, speedNoSub, speedWithSub)\<close>:
  in the source it is the constructor, which validates the parameters, followed by
  \<^verbatim>\<open>_create_video_segments\<close>, the way \<^verbatim>\<open>process\<close> runs them.
\<close>

definition schedule ::
  "bool \<Rightarrow> bool \<Rightarrow> string \<Rightarrow> string \<Rightarrow> real \<Rightarrow> real \<Rightarrow> real \<Rightarrow> real subtitle_segment list
     \<Rightarrow> real
     \<Rightarrow> error + video_segment list" where
  "schedule input_exists ffmpeg_installed inp outp s_no s_with buf subtitles video_duration =
     (case init_processor input_exists ffmpeg_installed inp outp s_no s_with buf of
        Inl e \<Rightarrow> Inl e
      | Inr p \<Rightarrow> Inr (create_video_segments p subtitles video_duration))"

text \<open>Concrete inputs: the default configuration of config.py, and one with both speeds 1.\<close>

definition example_processor :: processor where
  "example_processor = \<lparr>input_file = ''in.mkv'', output_file = ''out.mkv'',
     speed_no_subtitle = 2, speed_with_subtitle = 1, subtitle_buffer = 0.5\<rparr>"

definition unit_speed_processor :: processor where
  "unit_speed_processor = \<lparr>input_file = ''in.mkv'', output_file = ''out.mkv'',
     speed_no_subtitle = 1, speed_with_subtitle = 1, subtitle_buffer = 0.5\<rparr>"

definition sub_at :: "real \<Rightarrow> real \<Rightarrow> real subtitle_segment" where
  "sub_at s e = \<lparr>start_time = s, end_time = e, text_of = str ''x''\<rparr>"


section \<open>subtitle_parser.py: \<^verbatim>\<open>SubtitleParser\<close>\<close>

subsection \<open>The string operations of Python that the parser calls\<close>

text \<open>
  \<^verbatim>\<open>str.strip()\<close> removes from both ends the characters for which
  \<^verbatim>\<open>str.isspace()\<close> holds: the ASCII white space 9 to 13, 28 to 32, and the
  Unicode white space U+0085, U+00A0, U+1680, U+2000 to U+200A, U+2028, U+2029,
  U+202F, U+205F and U+3000.
\<close>

definition unicode_space :: "nat \<Rightarrow> bool" where
  "unicode_space c \<longleftrightarrow>
     (0x09 \<le> c \<and> c \<le> 0x0D) \<or> (0x1C \<le> c \<and> c \<le> 0x20) \<or> c = 0x85 \<or> c = 0xA0 \<or>
     c = 0x1680 \<or> (0x2000 \<le> c \<and> c \<le> 0x200A) \<or> c = 0x2028 \<or> c = 0x2029 \<or>
     c = 0x202F \<or> c = 0x205F \<or> c = 0x3000"

definition py_strip :: "pystr \<Rightarrow> pystr" where
  "py_strip s = rev (dropWhile unicode_space (rev (dropWhile unicode_space s)))"

text \<open>\<^verbatim>\<open>str.replace(old, new)\<close> for single characters.\<close>

definition py_replace_char :: "nat \<Rightarrow> nat \<Rightarrow> pystr \<Rightarrow> pystr" where
  "py_replace_char old new s = map (\<lambda>c. if c = old then new else c) s"

text \<open>
  \<^verbatim>\<open>str.split(sep)\<close>: scan from the left, cut at every occurrence of the
  separator, continue behind it. The parser only passes the non-empty separators
  of config.py (Python raises on an empty one).
\<close>

fun split_scan :: "pystr \<Rightarrow> pystr \<Rightarrow> pystr \<Rightarrow> pystr list" where
  "split_scan sep acc [] = [rev acc]"
| "split_scan sep acc (c # cs) =
     (if sep \<noteq> [] \<and> take (length sep) (c # cs) = sep
      then rev acc # split_scan sep [] (drop (length sep - 1) cs)
      else split_scan sep (c # acc) cs)"

definition py_split :: "pystr \<Rightarrow> pystr \<Rightarrow> pystr list" where
  "py_split sep s = split_scan sep [] s"

text \<open>\<^verbatim>\<open>sep in s\<close>: the separator occurs somewhere in the string.\<close>

fun py_contains :: "pystr \<Rightarrow> pystr \<Rightarrow> bool" where
  "py_contains sep [] \<longleftrightarrow> sep = []"
| "py_contains sep (c # cs) \<longleftrightarrow> take (length sep) (c # cs) = sep \<or> py_contains sep cs"

text \<open>\<^verbatim>\<open>sep.join(xs)\<close>.\<close>

fun py_join :: "pystr \<Rightarrow> pystr list \<Rightarrow> pystr" where
  "py_join sep [] = []"
| "py_join sep [x] = x"
| "py_join sep (x # y # ys) = x @ sep @ py_join sep (y # ys)"

subsection \<open>Python's \<^verbatim>\<open>float\<close>: binary64 values\<close>

text \<open>
  A \<^verbatim>\<open>float\<close> is a finite binary64 number, an infinity or NaN. The finite
  ones are given by their real value, so the two zeros of binary64 are one value
  here; nothing in the parser tells them apart (it never divides, and
  \<^verbatim>\<open>-0.0 == 0.0\<close>).
\<close>

datatype pyfloat = Finite real | PosInf | NegInf | NaN

text \<open>
  Rounding of a real to binary64, to nearest with ties to even: \<open>bits n\<close> is the
  length of the binary numeral of \<open>n\<close>, \<open>floor_log2 a\<close> the exponent of the power
  of two at or below \<open>a\<close>. A number with exponent \<open>e\<close> is rounded to a multiple of
  \<open>2 ^ (e - 52)\<close>, below the normal range to a multiple of \<open>2 ^ - 1074\<close>; a result
  of \<open>2 ^ 1024\<close> or more overflows to the infinity of its sign.
\<close>

function bits :: "int \<Rightarrow> nat" where
  "bits n = (if n \<le> 0 then 0 else Suc (bits (n div 2)))"
  by pat_completeness auto
termination
  by (relation "measure nat") auto

declare bits.simps [simp del]

definition floor_log2 :: "real \<Rightarrow> int" where
  "floor_log2 a =
     (if 1 \<le> a then int (bits \<lfloor>a\<rfloor>) - 1 else - int (bits (\<lceil>1 / a\<rceil> - 1)))"

definition two_pow :: "int \<Rightarrow> real" where
  "two_pow k = (if 0 \<le> k then 2 ^ nat k else 1 / 2 ^ nat (- k))"

definition round_half_even :: "real \<Rightarrow> int" where
  "round_half_even x =
     (let f = \<lfloor>x\<rfloor>; d = x - of_int f
      in if d < 1 / 2 then f else if 1 / 2 < d then f + 1 else if even f then f else f + 1)"

definition round_double :: "real \<Rightarrow> pyfloat" where
  "round_double x =
     (if x = 0 then Finite 0
      else
        (let a = \<bar>x\<bar>;
             q = max (floor_log2 a) (- 1022) - 52;
             r = of_int (round_half_even (a / two_pow q)) * two_pow q
         in if 2 ^ 1024 \<le> r then (if x < 0 then NegInf else PosInf)
            else Finite (if x < 0 then - r else r)))"

text \<open>
  The operators \<^verbatim>\<open>*\<close>, \<^verbatim>\<open>+\<close>, \<^verbatim>\<open><\<close> and \<^verbatim>\<open><=\<close> of \<^verbatim>\<open>float\<close>, as
  IEEE 754 defines them: NaN propagates, \<open>inf * 0\<close> and \<open>inf + -inf\<close> are NaN, a
  finite result is the rounded exact one, and every comparison with NaN is false.
\<close>

definition fl_sign :: "pyfloat \<Rightarrow> int" where
  "fl_sign x =
     (case x of
        Finite a \<Rightarrow> (if 0 < a then 1 else if a < 0 then - 1 else 0)
      | PosInf \<Rightarrow> 1
      | NegInf \<Rightarrow> - 1
      | NaN \<Rightarrow> 0)"

definition fl_mul :: "pyfloat \<Rightarrow> pyfloat \<Rightarrow> pyfloat" where
  "fl_mul x y =
     (if x = NaN \<or> y = NaN then NaN
      else case (x, y) of
             (Finite a, Finite b) \<Rightarrow> round_double (a * b)
           | _ \<Rightarrow> (if fl_sign x * fl_sign y = 0 then NaN
                   else if 0 < fl_sign x * fl_sign y then PosInf else NegInf))"

definition fl_add :: "pyfloat \<Rightarrow> pyfloat \<Rightarrow> pyfloat" where
  "fl_add x y =
     (if x = NaN \<or> y = NaN then NaN
      else case (x, y) of
             (Finite a, Finite b) \<Rightarrow> round_double (a + b)
           | (Finite a, _) \<Rightarrow> y
           | (_, Finite b) \<Rightarrow> x
           | _ \<Rightarrow> (if x = y then x else NaN))"

fun fl_less :: "pyfloat \<Rightarrow> pyfloat \<Rightarrow> bool" where
  "fl_less (Finite a) (Finite b) \<longleftrightarrow> a < b"
| "fl_less NaN _ \<longleftrightarrow> False"
| "fl_less _ NaN \<longleftrightarrow> False"
| "fl_less _ NegInf \<longleftrightarrow> False"
| "fl_less NegInf _ \<longleftrightarrow> True"
| "fl_less PosInf _ \<longleftrightarrow> False"
| "fl_less _ PosInf \<longleftrightarrow> True"

definition fl_le :: "pyfloat \<Rightarrow> pyfloat \<Rightarrow> bool" where
  "fl_le x y \<longleftrightarrow> x \<noteq> NaN \<and> y \<noteq> NaN \<and> \<not> fl_less y x"

subsection \<open>\<^verbatim>\<open>float(str)\<close>\<close>

text \<open>
  CPython converts a string in four steps (\<^verbatim>\<open>PyFloat_FromString\<close>). First every
  character from 127 on is replaced: white space by a space, a decimal digit of
  any script by the ASCII digit of its value, anything else by \<^verbatim>\<open>?\<close>. The
  table lists the zero of every run of ten decimal digits (category Nd) of
  Unicode 14.0.0, the version of Python 3.11.
\<close>

definition decimal_zeros :: "nat list" where
  "decimal_zeros =
     [0x30, 0x660, 0x6F0, 0x7C0, 0x966, 0x9E6, 0xA66, 0xAE6, 0xB66, 0xBE6, 0xC66, 0xCE6,
      0xD66, 0xDE6, 0xE50, 0xED0, 0xF20, 0x1040, 0x1090, 0x17E0, 0x1810, 0x1946, 0x19D0,
      0x1A80, 0x1A90, 0x1B50, 0x1BB0, 0x1C40, 0x1C50, 0xA620, 0xA8D0, 0xA900, 0xA9D0,
      0xA9F0, 0xAA50, 0xABF0, 0xFF10, 0x104A0, 0x10D30, 0x11066, 0x110F0, 0x11136,
      0x111D0, 0x112F0, 0x11450, 0x114D0, 0x11650, 0x116C0, 0x11730, 0x118E0, 0x11950,
      0x11C50, 0x11D50, 0x11DA0, 0x16A60, 0x16AC0, 0x16B50, 0x1D7CE, 0x1D7D8, 0x1D7E2,
      0x1D7EC, 0x1D7F6, 0x1E140, 0x1E2F0, 0x1E950, 0x1FBF0]"

definition unicode_decimal :: "nat \<Rightarrow> nat option" where
  "unicode_decimal c =
     map_option (\<lambda>z. c - z) (List.find (\<lambda>z. z \<le> c \<and> c < z + 10) decimal_zeros)"

definition float_ascii :: "pystr \<Rightarrow> pystr" where
  "float_ascii s =
     map (\<lambda>c. if c < 127 then c
              else if unicode_space c then 0x20
              else case unicode_decimal c of Some d \<Rightarrow> 0x30 + d | None \<Rightarrow> 0x3F) s"

text \<open>
  Second, the white space of C (the space and the characters 9 to 13, not 28 to
  31) is removed at both ends.
\<close>

definition ascii_space :: "nat \<Rightarrow> bool" where
  "ascii_space c \<longleftrightarrow> c = 0x20 \<or> (0x09 \<le> c \<and> c \<le> 0x0D)"

definition ascii_strip :: "pystr \<Rightarrow> pystr" where
  "ascii_strip s = rev (dropWhile ascii_space (rev (dropWhile ascii_space s)))"

text \<open>
  Third, underscores are removed; each must stand between two digits, or the
  conversion fails. \<open>prev\<close> is the character before, 0 at the start.
\<close>

definition is_digit :: "nat \<Rightarrow> bool" where
  "is_digit c \<longleftrightarrow> 0x30 \<le> c \<and> c \<le> 0x39"

fun remove_underscores :: "nat \<Rightarrow> pystr \<Rightarrow> pystr option" where
  "remove_underscores prev [] = (if prev = 0x5F then None else Some [])"
| "remove_underscores prev (c # cs) =
     (if c = 0x5F
      then (if is_digit prev then remove_underscores c cs else None)
      else if prev = 0x5F \<and> \<not> is_digit c then None
      else map_option (Cons c) (remove_underscores c cs))"

text \<open>
  Fourth, the whole rest must be an optional sign followed by \<^verbatim>\<open>inf\<close>,
  \<^verbatim>\<open>infinity\<close> or \<^verbatim>\<open>nan\<close> in any case, or by a decimal literal: digits,
  optionally a point and digits (at least one digit in all), optionally an
  exponent. The literal denotes a rational number, and the result is that number
  rounded to binary64. \<open>None\<close> stands for the \<^verbatim>\<open>ValueError\<close> of Python.
\<close>

definition digits_number :: "pystr \<Rightarrow> int" where
  "digits_number ds = foldl (\<lambda>a d. 10 * a + int (d - 0x30)) 0 ds"

definition split_sign :: "pystr \<Rightarrow> bool \<times> pystr" where
  "split_sign s =
     (case s of
        c # r \<Rightarrow> if c = 0x2D then (True, r) else if c = 0x2B then (False, r) else (False, s)
      | [] \<Rightarrow> (False, s))"

definition ascii_lower :: "nat \<Rightarrow> nat" where
  "ascii_lower c = (if 0x41 \<le> c \<and> c \<le> 0x5A then c + 0x20 else c)"

definition parse_exponent :: "pystr \<Rightarrow> int option" where
  "parse_exponent s =
     (if s = [] then Some 0
      else if hd s = 0x65 \<or> hd s = 0x45
      then (case split_sign (tl s) of
              (neg, ds) \<Rightarrow>
                if ds \<noteq> [] \<and> list_all is_digit ds
                then Some (if neg then - digits_number ds else digits_number ds)
                else None)
      else None)"

definition parse_decimal :: "pystr \<Rightarrow> real option" where
  "parse_decimal s =
     (let ip = takeWhile is_digit s;
          r1 = dropWhile is_digit s;
          fp = (if r1 \<noteq> [] \<and> hd r1 = 0x2E then takeWhile is_digit (tl r1) else []);
          r2 = (if r1 \<noteq> [] \<and> hd r1 = 0x2E then dropWhile is_digit (tl r1) else r1)
      in if ip = [] \<and> fp = [] then None
         else case parse_exponent r2 of
                None \<Rightarrow> None
              | Some ex \<Rightarrow>
                  (let m = of_int (digits_number (ip @ fp)); d = ex - int (length fp)
                   in Some (if 0 \<le> d then m * 10 ^ nat d else m / 10 ^ nat (- d))))"

definition string_to_double :: "pystr \<Rightarrow> pyfloat option" where
  "string_to_double s =
     (case split_sign s of
        (neg, body) \<Rightarrow>
          if map ascii_lower body = str ''inf'' \<or> map ascii_lower body = str ''infinity''
          then Some (if neg then NegInf else PosInf)
          else if map ascii_lower body = str ''nan'' then Some NaN
          else map_option (\<lambda>v. round_double (if neg then - v else v)) (parse_decimal body))"

definition py_float :: "pystr \<Rightarrow> pyfloat option" where
  "py_float s =
     (case remove_underscores 0 (ascii_strip (float_ascii s)) of
        None \<Rightarrow> None
      | Some t \<Rightarrow> string_to_double t)"

subsection \<open>The parser\<close>

text \<open>
  \<^verbatim>\<open>_parse_srt_time\<close>. Both \<^verbatim>\<open>raise ValueError\<close> of the source are the one
  error value; the three conversions run in the order hours, minutes, seconds.
  The constants 3600 and 60 of config.py are integers, converted exactly to
  \<^verbatim>\<open>float\<close> by the multiplication.
\<close>

definition parse_srt_time :: "pystr \<Rightarrow> error + pyfloat" where
  "parse_srt_time time_str =
     (let time_str1 = py_replace_char 0x2C 0x2E time_str;
          parts = py_split [0x3A] time_str1
      in if length parts \<noteq> 3 then Inl ValueError
         else case py_float (parts ! 0) of
                None \<Rightarrow> Inl ValueError
              | Some hours \<Rightarrow>
                 (case py_float (parts ! 1) of
                    None \<Rightarrow> Inl ValueError
                  | Some minutes \<Rightarrow>
                     (case py_float (parts ! 2) of
                        None \<Rightarrow> Inl ValueError
                      | Some seconds \<Rightarrow>
                          Inr (fl_add (fl_add (fl_mul hours (Finite 3600))
                                              (fl_mul minutes (Finite 60))) seconds))))"

text \<open>
  \<^verbatim>\<open>_parse_srt_block\<close>. \<open>Inr None\<close> is the \<^verbatim>\<open>return None\<close> of a skipped
  block. Inside the \<^verbatim>\<open>try\<close>, the unpacking into two names raises
  \<^verbatim>\<open>ValueError\<close> unless the split gives exactly two parts; that and a
  \<^verbatim>\<open>ValueError\<close> of the time parser are re-raised as
  \<^verbatim>\<open>SubtitleExtractionError\<close>.
\<close>

definition parse_srt_block :: "pystr \<Rightarrow> error + pyfloat subtitle_segment option" where
  "parse_srt_block block =
     (let lines = py_split [0x0A] block in
      if length lines < 3 then Inr None
      else
        (let timing_line = lines ! 1 in
         if \<not> py_contains (str '' --> '') timing_line then Inr None
         else case py_split (str '' --> '') timing_line of
                [start_str, end_str] \<Rightarrow>
                  (case parse_srt_time (py_strip start_str) of
                     Inl e \<Rightarrow> Inl SubtitleExtractionError
                   | Inr st \<Rightarrow>
                      (case parse_srt_time (py_strip end_str) of
                         Inl e \<Rightarrow> Inl SubtitleExtractionError
                       | Inr et \<Rightarrow>
                           Inr (Some \<lparr>start_time = st, end_time = et,
                                      text_of = py_join [0x20] (drop 2 lines)\<rparr>)))
              | _ \<Rightarrow> Inl SubtitleExtractionError))"

text \<open>
  The \<^verbatim>\<open>for block in blocks\<close> loop of \<^verbatim>\<open>parse_srt_file\<close>. A
  \<^verbatim>\<open>SubtitleSegment\<close> object is always true, so \<^verbatim>\<open>if subtitle\<close> only tests
  for \<^verbatim>\<open>None\<close>.
\<close>

fun parse_blocks ::
  "pystr list \<Rightarrow> pyfloat subtitle_segment list \<Rightarrow> error + pyfloat subtitle_segment list" where
  "parse_blocks [] subtitles = Inr subtitles"
| "parse_blocks (block # blocks) subtitles =
     (case parse_srt_block (py_strip block) of
        Inl e \<Rightarrow> Inl e
      | Inr None \<Rightarrow> parse_blocks blocks subtitles
      | Inr (Some subtitle) \<Rightarrow> parse_blocks blocks (subtitles @ [subtitle]))"

text \<open>\<^verbatim>\<open>content.strip().split(Config.SRT_BLOCK_DELIMITER)\<close>.\<close>

definition srt_blocks :: "pystr \<Rightarrow> pystr list" where
  "srt_blocks content = py_split [0x0A, 0x0A] (py_strip content)"

text \<open>
  \<^verbatim>\<open>sorted(subtitles, key=lambda x: x.start_time)\<close>. The sort is stable and
  compares keys with \<^verbatim>\<open><\<close> only. When no key is NaN, \<^verbatim>\<open><\<close> is a strict weak
  order and the result is the one of every stable sort, computed here by
  insertion: an element goes in front of the first one whose key is not below
  its own. When a key is NaN the result is still a rearrangement of the list, but
  which one depends on the comparisons the algorithm of \<^verbatim>\<open>list.sort\<close> happens
  to make; \<open>Rearranged xs\<close> stands for such a result, an unspecified rearrangement
  of \<open>xs\<close>.
\<close>

fun insert_by_start ::
  "pyfloat subtitle_segment \<Rightarrow> pyfloat subtitle_segment list \<Rightarrow> pyfloat subtitle_segment list" where
  "insert_by_start x [] = [x]"
| "insert_by_start x (y # ys) =
     (if fl_less (start_time y) (start_time x) then y # insert_by_start x ys else x # y # ys)"

definition sort_by_start :: "pyfloat subtitle_segment list \<Rightarrow> pyfloat subtitle_segment list" where
  "sort_by_start xs = foldr insert_by_start xs []"

datatype catalog =
    Ordered "pyfloat subtitle_segment list"
  | Rearranged "pyfloat subtitle_segment list"

definition py_sorted :: "pyfloat subtitle_segment list \<Rightarrow> catalog" where
  "py_sorted xs =
     (if list_ex (\<lambda>s. start_time s = NaN) xs then Rearranged xs else Ordered (sort_by_start xs))"

text \<open>
  \<^verbatim>\<open>parse_srt_file\<close>. The argument is what \<^verbatim>\<open>_read_srt_file\<close> gives: the
  text of the file, or the exception of the read. Every exception inside the
  \<^verbatim>\<open>try\<close> is re-raised as \<^verbatim>\<open>SubtitleExtractionError\<close>.
\<close>

definition parse_srt_file :: "error + pystr \<Rightarrow> error + catalog" where
  "parse_srt_file read_result =
     (case read_result of
        Inl e \<Rightarrow> Inl SubtitleExtractionError
      | Inr content \<Rightarrow>
          (case parse_blocks (srt_blocks content) [] of
             Inl e \<Rightarrow> Inl SubtitleExtractionError
           | Inr subtitles \<Rightarrow> Inr (py_sorted subtitles)))"

text \<open>
  The three conditions of a block (already stripped) that decide between skipping
  it and aborting: fewer than three lines, no delimiter in the timing line, a
  timestamp of the timing line that does not parse.
\<close>

definition too_short :: "pystr \<Rightarrow> bool" where
  "too_short block \<longleftrightarrow> length (py_split [0x0A] block) < 3"

definition lacks_delimiter :: "pystr \<Rightarrow> bool" where
  "lacks_delimiter block \<longleftrightarrow> \<not> py_contains (str '' --> '') (py_split [0x0A] block ! 1)"

definition timestamp_fails :: "pystr \<Rightarrow> bool" where
  "timestamp_fails block \<longleftrightarrow>
     (case py_split (str '' --> '') (py_split [0x0A] block ! 1) of
        [start_str, end_str] \<Rightarrow>
          isl (parse_srt_time (py_strip start_str)) \<or> isl (parse_srt_time (py_strip end_str))
      | _ \<Rightarrow> False)"

text \<open>
  Concrete subtitle files. In \<open>srt_nbsp\<close> a no-break space U+00A0 follows the
  timing line; in \<open>srt_nan\<close> the second block starts at \<^verbatim>\<open>nan:00:00\<close>.
\<close>

definition srt_reversed :: pystr where
  "srt_reversed = str ''1\<newline>00:00:05,000 --> 00:00:02,000\<newline>hi''"

definition srt_unordered :: pystr where
  "srt_unordered = str
     ''1\<newline>00:00:05,000 --> 00:00:06,000\<newline>a\<newline>\<newline>2\<newline>00:00:01,500 --> 00:00:02,000\<newline>b\<newline>\<newline>3\<newline>00:00:05,000 --> 00:00:07,000\<newline>c\<newline>d\<newline>''"

definition srt_with_short_block :: pystr where
  "srt_with_short_block = str
     ''1\<newline>00:00:01,000 --> 00:00:02,000\<newline>a\<newline>\<newline>2\<newline>stray\<newline>\<newline>3\<newline>00:00:05,000 --> 00:00:06,000\<newline>b''"

definition srt_without_short_block :: pystr where
  "srt_without_short_block = str
     ''1\<newline>00:00:01,000 --> 00:00:02,000\<newline>a\<newline>\<newline>3\<newline>00:00:05,000 --> 00:00:06,000\<newline>b''"

definition srt_bad_timestamp :: pystr where
  "srt_bad_timestamp = str
     ''1\<newline>00:00:01,000 --> 00:00:02,000\<newline>a\<newline>\<newline>2\<newline>bad --> 00:00:02,000\<newline>b''"

definition srt_nbsp :: pystr where
  "srt_nbsp = str ''1\<newline>00:00:01,000 --> 00:00:02,000'' @ [0xA0] @ str ''\<newline>hi''"

definition srt_nan :: pystr where
  "srt_nan = str
     ''1\<newline>00:00:02,000 --> 00:00:05,000\<newline>a\<newline>\<newline>2\<newline>nan:00:00 --> 00:00:02,000\<newline>b\<newline>\<newline>3\<newline>00:00:01,000 --> 00:00:02,000\<newline>c''"

section \<open>Properties of the scheduler\<close>

subsection \<open>The loop, unfolded\<close>

text \<open>The loop only appends to the list it is given.\<close>

lemma segments_loop_append:
  "segments_loop p D subs segs cur =
     (segs @ fst (segments_loop p D subs [] cur), snd (segments_loop p D subs [] cur))"
proof (induction subs arbitrary: segs cur)
  case Nil
  show ?case by simp
next
  case (Cons s subs)
  define ss where "ss = calculate_subtitle_start p (start_time s)"
  define se where "se = calculate_subtitle_end p (end_time s) D"
  define new where "new = (if cur < ss then [create_non_subtitle_segment p cur ss] else [])
                           @ [create_subtitle_segment p ss se]"
  have step: "segments_loop p D (s # subs) acc cur = segments_loop p D subs (acc @ new) se" for acc
    by (simp add: Let_def ss_def se_def new_def)
  have "segments_loop p D (s # subs) segs cur
        = ((segs @ new) @ fst (segments_loop p D subs [] se), snd (segments_loop p D subs [] se))"
    unfolding step by (rule Cons.IH)
  moreover have "segments_loop p D (s # subs) [] cur
        = (new @ fst (segments_loop p D subs [] se), snd (segments_loop p D subs [] se))"
    unfolding step using Cons.IH [of new se] by simp
  ultimately show ?case by simp
qed

text \<open>One iteration: an optional gap segment, the subtitle segment, then the rest.\<close>

lemma segments_loop_Cons:
  "segments_loop p D (s # subs) [] cur =
     (let ss = calculate_subtitle_start p (start_time s);
          se = calculate_subtitle_end p (end_time s) D
      in ((if cur < ss then [create_non_subtitle_segment p cur ss] else [])
            @ create_subtitle_segment p ss se # fst (segments_loop p D subs [] se),
          snd (segments_loop p D subs [] se)))"
  by (simp add: Let_def segments_loop_append [of p D subs "_ @ _"]
        segments_loop_append [of p D subs "[_]"])

lemma segment_fields [simp]:
  "has_subtitle (create_subtitle_segment p a b)"
  "\<not> has_subtitle (create_non_subtitle_segment p a b)"
  "speed (create_subtitle_segment p a b) = speed_with_subtitle p"
  "speed (create_non_subtitle_segment p a b) = speed_no_subtitle p"
  "seg_start_time (create_subtitle_segment p a b) = a"
  "seg_end_time (create_subtitle_segment p a b) = b"
  "seg_start_time (create_non_subtitle_segment p a b) = a"
  "seg_end_time (create_non_subtitle_segment p a b) = b"
  by (simp_all add: create_subtitle_segment_def create_non_subtitle_segment_def VideoSegment_def)

text \<open>
  The subtitle segment of one iteration, written out: from
  \<open>max 0 (start - buffer)\<close> to \<open>min duration (end + buffer)\<close>.
\<close>

lemma window_formula:
  "create_subtitle_segment p (calculate_subtitle_start p a) (calculate_subtitle_end p b D) =
     VideoSegment (max 0 (a - subtitle_buffer p)) (min D (b + subtitle_buffer p))
       (speed_with_subtitle p) True"
  by (simp add: create_subtitle_segment_def calculate_subtitle_start_def
        calculate_subtitle_end_def)

lemma loop_subtitle_segments:
  "filter has_subtitle (fst (segments_loop p D subs [] cur)) =
     map (\<lambda>s. VideoSegment (max 0 (start_time s - subtitle_buffer p))
                (min D (end_time s + subtitle_buffer p)) (speed_with_subtitle p) True) subs"
proof (induction subs arbitrary: cur)
  case Nil
  show ?case by simp
next
  case (Cons s subs)
  have "filter has_subtitle (fst (segments_loop p D (s # subs) [] cur)) =
          create_subtitle_segment p (calculate_subtitle_start p (start_time s))
            (calculate_subtitle_end p (end_time s) D)
          # filter has_subtitle
              (fst (segments_loop p D subs [] (calculate_subtitle_end p (end_time s) D)))"
    by (simp add: segments_loop_Cons Let_def del: segments_loop.simps(2))
  then show ?case
    by (simp add: Cons.IH window_formula)
qed

lemma loop_speed:
  "seg \<in> set (fst (segments_loop p D subs [] cur)) \<Longrightarrow>
     speed seg = (if has_subtitle seg then speed_with_subtitle p else speed_no_subtitle p)"
proof (induction subs arbitrary: cur)
  case Nil
  then show ?case by simp
next
  case (Cons s subs)
  then show ?case
    by (auto simp: segments_loop_Cons Let_def simp del: segments_loop.simps(2) split: if_splits)
qed

lemma loop_plain_positive:
  "seg \<in> set (fst (segments_loop p D subs [] cur)) \<Longrightarrow> \<not> has_subtitle seg \<Longrightarrow>
     seg_start_time seg < seg_end_time seg"
proof (induction subs arbitrary: cur)
  case Nil
  then show ?case by simp
next
  case (Cons s subs)
  then show ?case
    by (auto simp: segments_loop_Cons Let_def simp del: segments_loop.simps(2) split: if_splits)
qed

lemma no_adjacent_plain_Cons:
  "has_subtitle a \<Longrightarrow> no_adjacent_plain (a # xs) = no_adjacent_plain xs"
  by (cases xs) auto

lemma loop_no_adjacent_plain:
  "no_adjacent_plain (fst (segments_loop p D subs [] cur))"
proof (induction subs arbitrary: cur)
  case Nil
  show ?case by simp
next
  case (Cons s subs)
  show ?case
    by (simp add: segments_loop_Cons Let_def no_adjacent_plain_Cons Cons.IH
          del: segments_loop.simps(2))
qed

text \<open>After at least one iteration the list ends with a subtitle segment.\<close>

lemma loop_last:
  "subs \<noteq> [] \<Longrightarrow> fst (segments_loop p D subs [] cur) \<noteq> [] \<and>
     has_subtitle (last (fst (segments_loop p D subs [] cur)))"
proof (induction subs arbitrary: cur)
  case Nil
  then show ?case by simp
next
  case (Cons s subs)
  show ?case
  proof (cases subs)
    case Nil
    then show ?thesis by (simp add: segments_loop_Cons Let_def del: segments_loop.simps(2))
  next
    case (Cons t ts)
    then have "subs \<noteq> []" by simp
    from Cons.IH [OF this] show ?thesis
      by (simp add: segments_loop_Cons Let_def del: segments_loop.simps(2))
  qed
qed

lemma no_adjacent_plain_snoc:
  "no_adjacent_plain xs \<Longrightarrow> (xs \<noteq> [] \<Longrightarrow> has_subtitle (last xs)) \<Longrightarrow>
     no_adjacent_plain (xs @ [y])"
  by (induction xs rule: no_adjacent_plain.induct) auto

subsection \<open>Runs on concrete inputs\<close>

lemmas scheduler_defs = create_video_segments_def calculate_subtitle_start_def
  calculate_subtitle_end_def create_subtitle_segment_def create_non_subtitle_segment_def
  VideoSegment_def example_processor_def unit_speed_processor_def sub_at_def Let_def

text \<open>The example of the specification, section 8: one subtitle, nothing clamped.\<close>

lemma run_single:
  "create_video_segments example_processor [sub_at 10 12] 100 =
     [VideoSegment 0 9.5 2 False, VideoSegment 9.5 12.5 1 True, VideoSegment 12.5 100 2 False]"
  by (simp add: scheduler_defs)

text \<open>Two subtitles back to back: their padded windows overlap by one second.\<close>

text \<open>
  Two subtitles at the two ends of the timeline: the first window is clamped at 0,
  the second at the duration.
\<close>

lemma run_clamped:
  "create_video_segments example_processor [sub_at 0 1, sub_at 99 101] 100 =
     [VideoSegment 0 1.5 1 True, VideoSegment 1.5 98.5 2 False, VideoSegment 98.5 100 1 True]"
  by (simp add: scheduler_defs)

text \<open>A subtitle that starts after the end of the video.\<close>

lemma run_empty_window:
  "create_video_segments example_processor [sub_at 20 22] 10 =
     [VideoSegment 0 19.5 2 False, VideoSegment 19.5 10 1 True]"
  by (simp add: scheduler_defs)

lemma run_overlap:
  "create_video_segments example_processor [sub_at 10 12, sub_at 12 14] 100 =
     [VideoSegment 0 9.5 2 False, VideoSegment 9.5 12.5 1 True,
      VideoSegment 11.5 14.5 1 True, VideoSegment 14.5 100 2 False]"
  by (simp add: scheduler_defs)

subsection \<open>The ends of the timeline\<close>

lemma loop_cursor:
  "subs \<noteq> [] \<Longrightarrow>
     snd (segments_loop p D subs [] cur) \<le> D \<and>
     seg_end_time (last (fst (segments_loop p D subs [] cur))) = snd (segments_loop p D subs [] cur)"
proof (induction subs arbitrary: cur)
  case Nil
  then show ?case by simp
next
  case (Cons s subs)
  show ?case
  proof (cases subs)
    case Nil
    then show ?thesis
      by (simp add: segments_loop_Cons Let_def calculate_subtitle_end_def
            del: segments_loop.simps(2))
  next
    case (Cons t ts)
    then have ne: "subs \<noteq> []" by simp
    from Cons.IH [OF ne] loop_last [OF ne] show ?thesis
      by (simp add: segments_loop_Cons Let_def del: segments_loop.simps(2))
  qed
qed

lemma loop_first:
  "subs \<noteq> [] \<Longrightarrow> seg_start_time (hd (fst (segments_loop p D subs [] 0))) = 0"
  by (cases subs)
     (auto simp: segments_loop_Cons Let_def calculate_subtitle_start_def
        simp del: segments_loop.simps(2))

text \<open>
  For a positive duration the sequence is not empty, starts at 0 and ends at the
  duration, whatever the catalog.
\<close>

lemma coverage_ends:
  assumes "0 < D"
  shows "create_video_segments p subs D \<noteq> [] \<and>
         seg_start_time (hd (create_video_segments p subs D)) = 0 \<and>
         seg_end_time (last (create_video_segments p subs D)) = D"
proof (cases subs)
  case Nil
  with assms show ?thesis by (simp add: create_video_segments_def)
next
  case (Cons s ss)
  then have ne: "subs \<noteq> []" by simp
  obtain segs cur where L: "segments_loop p D subs [] 0 = (segs, cur)" by force
  from loop_last [OF ne, of p D 0] loop_cursor [OF ne, of p D 0] loop_first [OF ne, of p D] L
  have "segs \<noteq> []" "cur \<le> D" "seg_end_time (last segs) = cur" "seg_start_time (hd segs) = 0"
    by simp_all
  then show ?thesis
    by (auto simp: create_video_segments_def L)
qed

subsection \<open>C1: coverage\<close>

text \<open>
  C1 claims that for a catalog satisfying the invariant and a positive duration the
  segments tile the timeline: each segment ends where the next starts. The code
  fills a gap before a subtitle (\<^verbatim>\<open>if current_time < sub_start\<close>) but has no
  branch for \<^verbatim>\<open>current_time > sub_start\<close>: for the catalog
  \<open>[(10, 12), (12, 14)]\<close> with the default buffer 0.5 and duration 100 the second
  subtitle segment starts at 11.5, before the end 12.5 of the first, so the
  sequence is not adjacent. The two ends of the timeline are met all the same
  (lemma \<open>coverage_ends\<close>).
\<close>

theorem overlapping_windows_break_adjacency:
  "catalog_invariant [sub_at 10 12, sub_at 12 14] \<and>
   create_video_segments example_processor [sub_at 10 12, sub_at 12 14] 100 =
     [VideoSegment 0 9.5 2 False, VideoSegment 9.5 12.5 1 True,
      VideoSegment 11.5 14.5 1 True, VideoSegment 14.5 100 2 False] \<and>
   \<not> adjacent (create_video_segments example_processor [sub_at 10 12, sub_at 12 14] 100)"
  by (simp add: run_overlap) (simp add: catalog_invariant_def sub_at_def VideoSegment_def)

subsection \<open>C2: empty padded windows\<close>

text \<open>
  C2 as stated fails: a subtitle whose padded start lies at or after the duration
  is not skipped. For the catalog \<open>[(20, 22)]\<close>, buffer 0.5 and duration 10 the
  scheduler emits the subtitle segment from 19.5 to 10.
\<close>

theorem empty_window_segment_emitted:
  "start_time (sub_at 20 22) < end_time (sub_at 20 22) \<and>
   10 \<le> calculate_subtitle_start example_processor (start_time (sub_at 20 22)) \<and>
   create_video_segments example_processor [sub_at 20 22] 10 =
     [VideoSegment 0 19.5 2 False, VideoSegment 19.5 10 1 True] \<and>
   has_subtitle (VideoSegment 19.5 10 1 True) \<and>
   seg_end_time (VideoSegment 19.5 10 1 True) \<le> seg_start_time (VideoSegment 19.5 10 1 True)"
  by (simp add: scheduler_defs)

text \<open>
  C2, amended: the scheduler has no skip path. For every catalog interval it emits
  the subtitle segment from \<open>max 0 (start - buffer)\<close> to
  \<open>min duration (end + buffer)\<close>, so there are as many segments with subtitle as
  intervals; and for an interval with \<open>0 \<le> start < end\<close> and a buffer \<open>\<ge> 0\<close> the
  emitted segment has \<open>end \<le> start\<close> exactly when its padded start is at or after
  the duration: the segment of an empty window is emitted with zero or negative
  length.
\<close>

theorem subtitle_segment_always_emitted:
  assumes "sub \<in> set subs"
  shows "VideoSegment (max 0 (start_time sub - subtitle_buffer p))
           (min D (end_time sub + subtitle_buffer p)) (speed_with_subtitle p) True
           \<in> set (create_video_segments p subs D) \<and>
         length (filter has_subtitle (create_video_segments p subs D)) = length subs \<and>
         (0 \<le> start_time sub \<and> start_time sub < end_time sub \<and> 0 \<le> subtitle_buffer p \<longrightarrow>
            (min D (end_time sub + subtitle_buffer p) \<le> max 0 (start_time sub - subtitle_buffer p)
               \<longleftrightarrow> D \<le> max 0 (start_time sub - subtitle_buffer p)))"
proof -
  let ?w = "\<lambda>s. VideoSegment (max 0 (start_time s - subtitle_buffer p))
                  (min D (end_time s + subtitle_buffer p)) (speed_with_subtitle p) True"
  obtain segs cur where L: "segments_loop p D subs [] 0 = (segs, cur)" by force
  have F: "filter has_subtitle segs = map ?w subs"
    using loop_subtitle_segments [of p D subs 0] L by simp
  have "?w sub \<in> set (map ?w subs)"
    using assms by simp
  then have "?w sub \<in> set (filter has_subtitle segs)"
    by (simp only: F)
  then have "?w sub \<in> set segs" by simp
  then have mem: "?w sub \<in> set (create_video_segments p subs D)"
    by (simp add: create_video_segments_def L)
  have "length (filter has_subtitle segs) = length subs"
    by (simp only: F length_map)
  then have len: "length (filter has_subtitle (create_video_segments p subs D)) = length subs"
    by (simp add: create_video_segments_def L)
  have "0 \<le> start_time sub \<and> start_time sub < end_time sub \<and> 0 \<le> subtitle_buffer p \<longrightarrow>
          (min D (end_time sub + subtitle_buffer p) \<le> max 0 (start_time sub - subtitle_buffer p)
             \<longleftrightarrow> D \<le> max 0 (start_time sub - subtitle_buffer p))"
    by (auto simp: min_def max_def)
  with mem len show ?thesis by blast
qed

theorem subtitle_segment_always_emitted_witness:
  "VideoSegment 19.5 10 1 True \<in> set (create_video_segments example_processor [sub_at 20 22] 10) \<and>
   seg_end_time (VideoSegment 19.5 10 1 True) \<le> seg_start_time (VideoSegment 19.5 10 1 True) \<and>
   length (filter has_subtitle (create_video_segments example_processor [sub_at 20 22] 10)) = 1 \<and>
   VideoSegment 9.5 12.5 1 True \<in> set (create_video_segments example_processor [sub_at 10 12] 100) \<and>
   seg_start_time (VideoSegment 9.5 12.5 1 True) < seg_end_time (VideoSegment 9.5 12.5 1 True)"
  using subtitle_segment_always_emitted [of "sub_at 20 22" "[sub_at 20 22]" example_processor 10]
        subtitle_segment_always_emitted [of "sub_at 10 12" "[sub_at 10 12]" example_processor 100]
  by (simp add: run_empty_window run_single) (simp add: VideoSegment_def)

subsection \<open>C3: failure modes\<close>

text \<open>
  C3 as stated fails: the duration is never validated. With valid speeds and
  buffer, an empty catalog and the duration 0, the scheduler returns the empty
  list instead of failing.
\<close>

theorem schedule_accepts_zero_duration:
  "(0::real) \<le> 0 \<and> schedule True True ''in.mkv'' ''out.mkv'' 2 1 0.5 [] 0 = Inr []"
  by (simp add: schedule_def init_processor_def validate_inputs_def create_video_segments_def)

text \<open>
  C3, amended: the scheduler fails with \<open>ValidationError\<close> if and only if (the
  input file existing and FFmpeg being installed) a speed is \<open>\<le> 0\<close> or the buffer
  is \<open>< 0\<close>; the duration is not checked, and with valid speeds and buffer the
  scheduler returns the segment list for every catalog and every duration.
\<close>

theorem schedule_validation_iff:
  "(schedule input_exists ffmpeg_installed inp outp s_no s_with buf subs D = Inl ValidationError
      \<longleftrightarrow> input_exists \<and> ffmpeg_installed \<and> (s_no \<le> 0 \<or> s_with \<le> 0 \<or> buf < 0)) \<and>
   (input_exists \<and> ffmpeg_installed \<and> 0 < s_no \<and> 0 < s_with \<and> 0 \<le> buf \<longrightarrow>
      schedule input_exists ffmpeg_installed inp outp s_no s_with buf subs D =
        Inr (create_video_segments
               \<lparr>input_file = inp, output_file = outp, speed_no_subtitle = s_no,
                speed_with_subtitle = s_with, subtitle_buffer = buf\<rparr> subs D))"
  by (auto simp: schedule_def init_processor_def validate_inputs_def Let_def)

theorem schedule_validation_iff_witness:
  "schedule True True ''in.mkv'' ''out.mkv'' 2 1 0.5 [sub_at 10 12] 100 =
     Inr [VideoSegment 0 9.5 2 False, VideoSegment 9.5 12.5 1 True, VideoSegment 12.5 100 2 False]
   \<and> schedule True True ''in.mkv'' ''out.mkv'' 0 1 0.5 [sub_at 10 12] 100 = Inl ValidationError"
  using schedule_validation_iff [of True True "''in.mkv''" "''out.mkv''" 2 1 "0.5" "[sub_at 10 12]" 100]
        schedule_validation_iff [of True True "''in.mkv''" "''out.mkv''" 0 1 "0.5" "[sub_at 10 12]" 100]
        run_single
  by (simp add: example_processor_def)

subsection \<open>C4: duration accounting\<close>

text \<open>
  C4 claims an estimated output duration equal to the duration when both speeds
  are 1. On the overlapping catalog \<open>[(10, 12), (12, 14)]\<close>, buffer 0.5, duration
  100, the estimate is 101 and the time saved is \<open>-1\<close> percent: the second of
  video between 11.5 and 12.5 is counted twice.
\<close>

theorem overlap_inflates_output_duration:
  "segment_info (create_video_segments unit_speed_processor [sub_at 10 12, sub_at 12 14] 100) 100
     = Inr (101, - 1)"
  by (simp add: scheduler_defs segment_info_def output_duration_def duration_def)

subsection \<open>C5: speed correctness\<close>

text \<open>
  C5: in every segment sequence the scheduler produces, a segment with subtitle
  has the with-subtitle speed and a segment without has the no-subtitle speed.
\<close>

theorem segment_speed_by_kind:
  "\<forall>seg \<in> set (create_video_segments p subs D).
    (has_subtitle seg \<longrightarrow> speed seg = speed_with_subtitle p) \<and>
    (\<not> has_subtitle seg \<longrightarrow> speed seg = speed_no_subtitle p)"
proof -
  obtain segs cur where L: "segments_loop p D subs [] 0 = (segs, cur)" by force
  have "\<And>seg. seg \<in> set segs \<Longrightarrow>
     speed seg = (if has_subtitle seg then speed_with_subtitle p else speed_no_subtitle p)"
    using loop_speed [of _ p D subs 0] L by simp
  then show ?thesis
    by (auto simp: create_video_segments_def L)
qed

theorem segment_speed_by_kind_witness:
  "create_video_segments example_processor [sub_at 10 12] 100 =
     [VideoSegment 0 9.5 2 False, VideoSegment 9.5 12.5 1 True, VideoSegment 12.5 100 2 False] \<and>
   \<not> has_subtitle (VideoSegment 0 9.5 2 False) \<and>
   speed (VideoSegment 0 9.5 2 False) = speed_no_subtitle example_processor \<and>
   has_subtitle (VideoSegment 9.5 12.5 1 True) \<and>
   speed (VideoSegment 9.5 12.5 1 True) = speed_with_subtitle example_processor \<and>
   \<not> has_subtitle (VideoSegment 12.5 100 2 False) \<and>
   speed (VideoSegment 12.5 100 2 False) = speed_no_subtitle example_processor"
  using segment_speed_by_kind [of example_processor "[sub_at 10 12]" 100]
  by (simp add: run_single) (simp add: VideoSegment_def)

subsection \<open>C9: one subtitle segment per interval\<close>

text \<open>
  C9: the segments with subtitle are, in catalog order, exactly one per catalog
  interval, from \<open>max 0 (start - buffer)\<close> to \<open>min duration (end + buffer)\<close>, at
  the with-subtitle speed; none is merged, dropped or duplicated, so there are as
  many of them as intervals.
\<close>

theorem one_subtitle_segment_per_interval:
  "filter has_subtitle (create_video_segments p subs D) =
     map (\<lambda>s. VideoSegment (max 0 (start_time s - subtitle_buffer p))
                (min D (end_time s + subtitle_buffer p)) (speed_with_subtitle p) True) subs \<and>
   length (filter has_subtitle (create_video_segments p subs D)) = length subs"
proof -
  obtain segs cur where L: "segments_loop p D subs [] 0 = (segs, cur)" by force
  have "filter has_subtitle segs =
     map (\<lambda>s. VideoSegment (max 0 (start_time s - subtitle_buffer p))
                (min D (end_time s + subtitle_buffer p)) (speed_with_subtitle p) True) subs"
    using loop_subtitle_segments [of p D subs 0] L by simp
  then have "filter has_subtitle (create_video_segments p subs D) =
     map (\<lambda>s. VideoSegment (max 0 (start_time s - subtitle_buffer p))
                (min D (end_time s + subtitle_buffer p)) (speed_with_subtitle p) True) subs"
    by (simp add: create_video_segments_def L)
  then show ?thesis by simp
qed

text \<open>
  On the catalog \<open>[(0, 1), (99, 101)]\<close> with buffer 0.5 and duration 100 both
  windows are clamped: the first starts at 0, not at \<open>-0.5\<close>, the second ends at
  100, not at 101.5. On the overlapping catalog \<open>[(10, 12), (12, 14)]\<close> the two
  windows stay two segments.
\<close>

theorem one_subtitle_segment_per_interval_witness:
  "filter has_subtitle (create_video_segments example_processor [sub_at 0 1, sub_at 99 101] 100)
     = [VideoSegment 0 1.5 1 True, VideoSegment 98.5 100 1 True] \<and>
   create_video_segments example_processor [sub_at 0 1, sub_at 99 101] 100 =
     [VideoSegment 0 1.5 1 True, VideoSegment 1.5 98.5 2 False, VideoSegment 98.5 100 1 True] \<and>
   filter has_subtitle
     (create_video_segments example_processor [sub_at 10 12, sub_at 12 14] 100)
     = [VideoSegment 9.5 12.5 1 True, VideoSegment 11.5 14.5 1 True]"
  using one_subtitle_segment_per_interval [of example_processor "[sub_at 0 1, sub_at 99 101]" 100]
        one_subtitle_segment_per_interval [of example_processor "[sub_at 10 12, sub_at 12 14]" 100]
        run_clamped
  by (simp add: example_processor_def sub_at_def)

subsection \<open>C10: segments without subtitle\<close>

text \<open>
  C10: no two consecutive segments are both without subtitle, and every segment
  without subtitle has \<open>end > start\<close>.
\<close>

theorem plain_segments_isolated_and_positive:
  "no_adjacent_plain (create_video_segments p subs D) \<and>
   (\<forall>seg \<in> set (create_video_segments p subs D).
      \<not> has_subtitle seg \<longrightarrow> seg_start_time seg < seg_end_time seg)"
proof -
  obtain segs cur where L: "segments_loop p D subs [] 0 = (segs, cur)" by force
  have nap: "no_adjacent_plain segs"
    using loop_no_adjacent_plain [of p D subs 0] L by simp
  have lst: "segs \<noteq> [] \<Longrightarrow> has_subtitle (last segs)"
    using loop_last [of subs p D 0] L by (cases subs) auto
  have pos: "\<And>seg. seg \<in> set segs \<Longrightarrow> \<not> has_subtitle seg \<Longrightarrow>
      seg_start_time seg < seg_end_time seg"
    using loop_plain_positive [of _ p D subs 0] L by simp
  show ?thesis
    using nap lst pos no_adjacent_plain_snoc [OF nap]
    by (auto simp: create_video_segments_def L)
qed

theorem plain_segments_isolated_and_positive_witness:
  "create_video_segments example_processor [sub_at 10 12, sub_at 12 14] 100 =
     [VideoSegment 0 9.5 2 False, VideoSegment 9.5 12.5 1 True,
      VideoSegment 11.5 14.5 1 True, VideoSegment 14.5 100 2 False] \<and>
   no_adjacent_plain [VideoSegment 0 9.5 2 False, VideoSegment 9.5 12.5 1 True,
      VideoSegment 11.5 14.5 1 True, VideoSegment 14.5 100 2 False] \<and>
   \<not> has_subtitle (VideoSegment 0 9.5 2 False) \<and>
   seg_start_time (VideoSegment 0 9.5 2 False) < seg_end_time (VideoSegment 0 9.5 2 False) \<and>
   \<not> has_subtitle (VideoSegment 14.5 100 2 False) \<and>
   seg_start_time (VideoSegment 14.5 100 2 False) < seg_end_time (VideoSegment 14.5 100 2 False)"
  using plain_segments_isolated_and_positive
          [of example_processor "[sub_at 10 12, sub_at 12 14]" 100]
  by (simp add: run_overlap) (simp add: VideoSegment_def)

section \<open>Properties of the parser\<close>

subsection \<open>The block loop\<close>

lemma parse_blocks_append:
  "parse_blocks (xs @ ys) acc =
     (case parse_blocks xs acc of Inl e \<Rightarrow> Inl e | Inr acc' \<Rightarrow> parse_blocks ys acc')"
  by (induction xs arbitrary: acc) (auto split: sum.splits option.splits)

lemma parse_blocks_error:
  "b \<in> set bs \<Longrightarrow> parse_srt_block (py_strip b) = Inl SubtitleExtractionError \<Longrightarrow>
     parse_blocks bs acc = Inl SubtitleExtractionError"
proof (induction bs arbitrary: acc)
  case Nil
  then show ?case by simp
next
  case (Cons a bs)
  have only: "\<And>blk e. parse_srt_block blk = Inl e \<Longrightarrow> e = SubtitleExtractionError"
    by (auto simp: parse_srt_block_def Let_def split: if_splits list.splits sum.splits)
  show ?case
  proof (cases "parse_srt_block (py_strip a)")
    case (Inl e)
    with only [OF Inl] show ?thesis by simp
  next
    case (Inr r)
    then have "a \<noteq> b" using Cons.prems(2) by auto
    then have "b \<in> set bs" using Cons.prems(1) by simp
    from Cons.IH [OF this Cons.prems(2)] Inr show ?thesis
      by (cases r) simp_all
  qed
qed

lemma block_dropped:
  "too_short blk \<or> lacks_delimiter blk \<Longrightarrow> parse_srt_block blk = Inr None"
  by (auto simp: parse_srt_block_def too_short_def lacks_delimiter_def Let_def)

lemma block_fatal:
  "\<not> too_short blk \<Longrightarrow> \<not> lacks_delimiter blk \<Longrightarrow> timestamp_fails blk \<Longrightarrow>
     parse_srt_block blk = Inl SubtitleExtractionError"
  by (auto simp: parse_srt_block_def too_short_def lacks_delimiter_def timestamp_fails_def Let_def
        split: list.splits sum.splits)

subsection \<open>Comparison and the stable sort\<close>

lemma fl_less_irrefl: "\<not> fl_less a a"
  by (cases a) simp_all

lemma fl_less_asym: "fl_less a b \<Longrightarrow> \<not> fl_less b a"
  by (cases a; cases b) simp_all

lemma fl_le_trans: "fl_le a b \<Longrightarrow> fl_le b c \<Longrightarrow> fl_le a c"
  by (cases a; cases b; cases c) (simp_all add: fl_le_def)

lemma insert_by_start_set: "set (insert_by_start x xs) = insert x (set xs)"
  by (induction xs) auto

lemma insert_by_start_length: "length (insert_by_start x xs) = Suc (length xs)"
  by (induction xs) auto

lemma insert_by_start_sorted:
  assumes "start_time x \<noteq> NaN" and "\<forall>y \<in> set xs. start_time y \<noteq> NaN"
    and "sorted_wrt (\<lambda>a b. fl_le (start_time a) (start_time b)) xs"
  shows "sorted_wrt (\<lambda>a b. fl_le (start_time a) (start_time b)) (insert_by_start x xs)"
  using assms
proof (induction xs)
  case Nil
  then show ?case by simp
next
  case (Cons y ys)
  show ?case
  proof (cases "fl_less (start_time y) (start_time x)")
    case True
    then have "fl_le (start_time y) (start_time x)"
      using Cons.prems(1,2) fl_less_asym by (simp add: fl_le_def)
    with True Cons show ?thesis
      by (auto simp: insert_by_start_set)
  next
    case False
    then have le: "fl_le (start_time x) (start_time y)"
      using Cons.prems(1,2) by (simp add: fl_le_def)
    have "\<forall>z \<in> set ys. fl_le (start_time x) (start_time z)"
      using Cons.prems(3) le fl_le_trans by auto
    with False le Cons.prems(3) show ?thesis by simp
  qed
qed

text \<open>An element is inserted in front of those with the same start.\<close>

lemma insert_by_start_filter:
  "filter (\<lambda>s. start_time s = k) (insert_by_start x xs) =
     (if start_time x = k then x # filter (\<lambda>s. start_time s = k) xs
      else filter (\<lambda>s. start_time s = k) xs)"
  by (induction xs) (auto simp: fl_less_irrefl)

lemma sort_by_start_set: "set (sort_by_start xs) = set xs"
  by (induction xs) (simp_all add: sort_by_start_def insert_by_start_set)

lemma sort_by_start_length: "length (sort_by_start xs) = length xs"
  by (induction xs) (simp_all add: sort_by_start_def insert_by_start_length)

lemma sort_by_start_sorted:
  "\<forall>y \<in> set xs. start_time y \<noteq> NaN \<Longrightarrow>
     sorted_wrt (\<lambda>a b. fl_le (start_time a) (start_time b)) (sort_by_start xs)"
proof (induction xs)
  case Nil
  show ?case by (simp add: sort_by_start_def)
next
  case (Cons x xs)
  have "sorted_wrt (\<lambda>a b. fl_le (start_time a) (start_time b))
          (insert_by_start x (sort_by_start xs))"
    using Cons by (intro insert_by_start_sorted) (simp_all add: sort_by_start_set)
  then show ?case by (simp add: sort_by_start_def)
qed

lemma sort_by_start_stable:
  "filter (\<lambda>s. start_time s = k) (sort_by_start xs) = filter (\<lambda>s. start_time s = k) xs"
proof (induction xs)
  case Nil
  show ?case by (simp add: sort_by_start_def)
next
  case (Cons x xs)
  have "sort_by_start (x # xs) = insert_by_start x (sort_by_start xs)"
    by (simp add: sort_by_start_def)
  then show ?case by (simp add: insert_by_start_filter Cons)
qed

subsection \<open>Rounding of concrete values\<close>

text \<open>
  Rounding, given the exponent \<open>k\<close> of the number and the integer \<open>m\<close> its scaled
  magnitude rounds to.
\<close>

lemma round_double_step:
  assumes "x \<noteq> 0" and "floor_log2 \<bar>x\<bar> = k" and "max k (- 1022) - 52 = q"
    and "round_half_even (\<bar>x\<bar> / two_pow q) = m" and "of_int m * two_pow q = r"
    and "r < 2 ^ 1024"
  shows "round_double x = Finite (if x < 0 then - r else r)"
proof -
  from assms(2,3) have q: "max (floor_log2 \<bar>x\<bar>) (- 1022) - 52 = q" by simp
  from assms(4,5) have r: "of_int (round_half_even (\<bar>x\<bar> / two_pow q)) * two_pow q = r"
    by simp
  show ?thesis
    unfolding round_double_def Let_def q r using assms(1,6) by simp
qed

lemmas round_defs = floor_log2_def bits.simps round_half_even_def two_pow_def Let_def

lemma round_double_0: "round_double 0 = Finite 0"
  by (simp add: round_double_def)

lemma round_double_1: "round_double 1 = Finite 1"
  using round_double_step [of 1 0 "- 52" "2 ^ 52" 1] by (simp add: round_defs)

lemma round_double_2: "round_double 2 = Finite 2"
  using round_double_step [of 2 1 "- 51" "2 ^ 52" 2] by (simp add: round_defs)

lemma round_double_3: "round_double 3 = Finite 3"
  using round_double_step [of 3 1 "- 51" "3 * 2 ^ 51" 3] by (simp add: round_defs)

lemma round_double_5: "round_double 5 = Finite 5"
  using round_double_step [of 5 2 "- 50" "5 * 2 ^ 50" 5] by (simp add: round_defs)

lemma round_double_6: "round_double 6 = Finite 6"
  using round_double_step [of 6 2 "- 50" "6 * 2 ^ 50" 6] by (simp add: round_defs)

lemma round_double_7: "round_double 7 = Finite 7"
  using round_double_step [of 7 2 "- 50" "7 * 2 ^ 50" 7] by (simp add: round_defs)

lemma round_double_3_2: "round_double (3 / 2) = Finite (3 / 2)"
  using round_double_step [of "3 / 2" 0 "- 52" "3 * 2 ^ 51" "3 / 2"] by (simp add: round_defs)

lemma round_double_9_2: "round_double (9 / 2) = Finite (9 / 2)"
  using round_double_step [of "9 / 2" 2 "- 50" "9 * 2 ^ 49" "9 / 2"] by (simp add: round_defs)

lemma round_double_180: "round_double 180 = Finite 180"
  using round_double_step [of 180 7 "- 45" "180 * 2 ^ 45" 180] by (simp add: round_defs)

lemma round_double_7200: "round_double 7200 = Finite 7200"
  using round_double_step [of 7200 12 "- 40" "7200 * 2 ^ 40" 7200] by (simp add: round_defs)

lemma round_double_7380: "round_double 7380 = Finite 7380"
  using round_double_step [of 7380 12 "- 40" "7380 * 2 ^ 40" 7380] by (simp add: round_defs)

lemma round_double_14769_2: "round_double (14769 / 2) = Finite (14769 / 2)"
  using round_double_step [of "14769 / 2" 12 "- 40" "14769 * 2 ^ 39" "14769 / 2"]
  by (simp add: round_defs)

lemma round_double_minus_1: "round_double (- 1) = Finite (- 1)"
  using round_double_step [of "- 1" 0 "- 52" "2 ^ 52" 1] by (simp add: round_defs)

lemma round_double_minus_3600: "round_double (- 3600) = Finite (- 3600)"
  using round_double_step [of "- 3600" 11 "- 41" "3600 * 2 ^ 41" 3600] by (simp add: round_defs)

text \<open>
  The decimal 1.1 is no binary64 number: it rounds to
  \<open>4953959590107546 / 2 ^ 52\<close>, which then rounds to itself.
\<close>

lemma round_double_11_10:
  "round_double (11 / 10) = Finite (2476979795053773 / 2251799813685248)"
  using round_double_step [of "11 / 10" 0 "- 52" 4953959590107546
          "2476979795053773 / 2251799813685248"]
  by (simp add: round_defs)

lemma round_double_11_10_again:
  "round_double (2476979795053773 / 2251799813685248) =
     Finite (2476979795053773 / 2251799813685248)"
  using round_double_step [of "2476979795053773 / 2251799813685248" 0 "- 52" 4953959590107546
          "2476979795053773 / 2251799813685248"]
  by (simp add: round_defs)

lemmas round_values = round_double_0 round_double_1 round_double_2 round_double_3
  round_double_5 round_double_6 round_double_7 round_double_3_2 round_double_9_2
  round_double_180 round_double_7200 round_double_7380 round_double_14769_2
  round_double_minus_1 round_double_minus_3600 round_double_11_10 round_double_11_10_again

subsection \<open>Runs on concrete inputs\<close>

lemmas parser_defs = parse_srt_file_def srt_blocks_def parse_srt_block_def parse_srt_time_def
  py_split_def py_replace_char_def py_float_def py_strip_def unicode_space_def str_def
  float_ascii_def ascii_strip_def ascii_space_def is_digit_def string_to_double_def
  split_sign_def ascii_lower_def parse_decimal_def parse_exponent_def digits_number_def
  fl_mul_def fl_add_def fl_sign_def py_sorted_def sort_by_start_def Let_def
  too_short_def lacks_delimiter_def timestamp_fails_def round_values

lemma run_unordered:
  "parse_srt_file (Inr srt_unordered) =
     Inr (Ordered [\<lparr>start_time = Finite (3 / 2), end_time = Finite 2, text_of = str ''b''\<rparr>,
          \<lparr>start_time = Finite 5, end_time = Finite 6, text_of = str ''a''\<rparr>,
          \<lparr>start_time = Finite 5, end_time = Finite 7, text_of = str ''c d''\<rparr>])"
  by (simp add: srt_unordered_def parser_defs)

lemma run_unordered_blocks:
  "parse_blocks (srt_blocks srt_unordered) [] =
     Inr [\<lparr>start_time = Finite 5, end_time = Finite 6, text_of = str ''a''\<rparr>,
          \<lparr>start_time = Finite (3 / 2), end_time = Finite 2, text_of = str ''b''\<rparr>,
          \<lparr>start_time = Finite 5, end_time = Finite 7, text_of = str ''c d''\<rparr>]"
  by (simp add: srt_unordered_def parser_defs)

text \<open>A start time that is NaN: the file is accepted, the order is not determined.\<close>

lemma run_nan:
  "parse_srt_file (Inr srt_nan) =
     Inr (Rearranged [\<lparr>start_time = Finite 2, end_time = Finite 5, text_of = str ''a''\<rparr>,
          \<lparr>start_time = NaN, end_time = Finite 2, text_of = str ''b''\<rparr>,
          \<lparr>start_time = Finite 1, end_time = Finite 2, text_of = str ''c''\<rparr>])"
  by (simp add: srt_nan_def parser_defs)

text \<open>
  A no-break space behind the timing line is stripped from the end timestamp,
  and the block is accepted.
\<close>

lemma run_nbsp:
  "parse_srt_file (Inr srt_nbsp) =
     Inr (Ordered [\<lparr>start_time = Finite 1, end_time = Finite 2, text_of = str ''hi''\<rparr>])"
  by (simp add: srt_nbsp_def parser_defs)

text \<open>
  Components that only \<^verbatim>\<open>float\<close> accepts: an infinity, a component padded
  with the character 28 (white space for \<^verbatim>\<open>strip\<close>, not for \<^verbatim>\<open>float\<close>),
  digits of another script, an underscore between digits.
\<close>

lemma run_float_edges:
  "parse_srt_time (str ''inf:00:00'') = Inr PosInf"
  "parse_srt_time (str ''00'' @ [0x1C] @ str '':00:01'') = Inl ValueError"
  "parse_srt_time ([0x663] @ str '':00:00'') = Inr (Finite 10800)"
  "parse_srt_time (str ''0_0:00:01'') = Inr (Finite 1)"
  "parse_srt_time (str ''00:00:_1'') = Inl ValueError"
  using round_double_step [of 10800 13 "- 39" "10800 * 2 ^ 39" 10800]
  by (simp_all add: parser_defs unicode_decimal_def decimal_zeros_def round_defs)

lemma run_short_blocks:
  "srt_blocks srt_with_short_block =
     [str ''1\<newline>00:00:01,000 --> 00:00:02,000\<newline>a''] @ str ''2\<newline>stray''
       # [str ''3\<newline>00:00:05,000 --> 00:00:06,000\<newline>b'']"
  "srt_blocks srt_without_short_block =
     [str ''1\<newline>00:00:01,000 --> 00:00:02,000\<newline>a'']
       @ [str ''3\<newline>00:00:05,000 --> 00:00:06,000\<newline>b'']"
  by (simp_all add: srt_with_short_block_def srt_without_short_block_def srt_blocks_def
        py_split_def py_strip_def unicode_space_def str_def)

lemma run_short_flags: "too_short (py_strip (str ''2\<newline>stray''))"
  by (simp add: too_short_def py_split_def py_strip_def unicode_space_def str_def)

lemma run_bad_blocks:
  "str ''2\<newline>bad --> 00:00:02,000\<newline>b'' \<in> set (srt_blocks srt_bad_timestamp)"
  by (simp add: srt_bad_timestamp_def srt_blocks_def py_split_def py_strip_def unicode_space_def
        str_def)

lemma run_bad_flags:
  "\<not> too_short (py_strip (str ''2\<newline>bad --> 00:00:02,000\<newline>b'')) \<and>
   \<not> lacks_delimiter (py_strip (str ''2\<newline>bad --> 00:00:02,000\<newline>b'')) \<and>
   timestamp_fails (py_strip (str ''2\<newline>bad --> 00:00:02,000\<newline>b''))"
  by (simp add: parser_defs)

subsection \<open>A minus sign in front of digits\<close>

lemma float_ascii_digits: "list_all is_digit ds \<Longrightarrow> float_ascii ds = ds"
  by (induction ds) (simp_all add: float_ascii_def is_digit_def)

lemma remove_underscores_digits:
  "list_all is_digit ds \<Longrightarrow> prev \<noteq> 0x5F \<Longrightarrow> remove_underscores prev ds = Some ds"
  by (induction ds arbitrary: prev) (auto simp: is_digit_def)

lemma ascii_strip_signed:
  assumes "ds \<noteq> []" and "list_all is_digit ds"
  shows "ascii_strip (0x2D # ds) = 0x2D # ds"
proof -
  have "\<not> ascii_space (last ds)"
    using assms by (auto simp: list_all_iff is_digit_def ascii_space_def dest!: last_in_set)
  then have "dropWhile ascii_space (rev ds @ [0x2D]) = rev ds @ [0x2D]"
    using assms(1) by (cases "rev ds") (auto simp: last_rev [symmetric] hd_rev)
  then show ?thesis
    by (simp add: ascii_strip_def ascii_space_def)
qed

lemma digits_not_special:
  assumes "ds \<noteq> []" and "list_all is_digit ds"
  shows "map ascii_lower ds \<noteq> str ''inf''" "map ascii_lower ds \<noteq> str ''infinity''"
        "map ascii_lower ds \<noteq> str ''nan''"
  using assms by (cases ds; auto simp: str_def ascii_lower_def is_digit_def)+

lemma parse_decimal_digits:
  assumes "ds \<noteq> []" and "list_all is_digit ds"
  shows "parse_decimal ds = Some (of_int (digits_number ds))"
proof -
  have tw: "takeWhile is_digit ds = ds" and dw: "dropWhile is_digit ds = []"
    using assms(2) by (simp_all add: list_all_iff)
  show ?thesis
    unfolding parse_decimal_def Let_def tw dw
    using assms(1) by (simp add: parse_exponent_def)
qed

lemma py_float_negative:
  assumes "ds \<noteq> []" and "list_all is_digit ds"
  shows "py_float (0x2D # ds) = Some (round_double (- of_int (digits_number ds)))"
proof -
  have "float_ascii (0x2D # ds) = 0x2D # ds"
    using float_ascii_digits [OF assms(2)] by (simp add: float_ascii_def)
  moreover have "remove_underscores 0 (0x2D # ds) = Some (0x2D # ds)"
    using remove_underscores_digits [OF assms(2), of "0x2D"] by simp
  moreover have "string_to_double (0x2D # ds) = Some (round_double (- of_int (digits_number ds)))"
    using digits_not_special [OF assms] parse_decimal_digits [OF assms]
    by (simp add: string_to_double_def split_sign_def)
  ultimately show ?thesis
    by (simp add: py_float_def ascii_strip_signed [OF assms])
qed

subsection \<open>C6: failures of the timestamp parser\<close>

text \<open>
  C6 as stated fails: the sign of a component is not checked. The component
  \<open>-1\<close> converts to the number \<open>-1\<close>, and \<open>-1:00:00\<close> parses to \<open>-3600\<close> seconds,
  a value below 0.
\<close>

theorem negative_component_accepted:
  "py_float (str ''-1'') = Some (Finite (- 1)) \<and>
   parse_srt_time (str ''-1:00:00'') = Inr (Finite (- 3600)) \<and>
   fl_less (Finite (- 3600)) (Finite 0)"
  by (simp add: parser_defs)

text \<open>
  C6, amended: the timestamp parser fails exactly when the text, with every comma
  replaced by a point, does not split at the colons into three components, or one
  of the components is not accepted by \<^verbatim>\<open>float\<close>; whenever the three
  components convert, to values of any sign, the result is the binary64 value of
  \<open>hours * 3600 + minutes * 60 + seconds\<close>; and a minus sign followed by digits
  is a component that converts, to the rounded negative of the number the digits
  denote.
\<close>

theorem parse_srt_time_fails_iff:
  "(isl (parse_srt_time t) \<longleftrightarrow>
      length (py_split [0x3A] (py_replace_char 0x2C 0x2E t)) \<noteq> 3 \<or>
      (\<exists>part \<in> set (py_split [0x3A] (py_replace_char 0x2C 0x2E t)). py_float part = None)) \<and>
   (\<forall>ph pm ps h m sec.
      py_split [0x3A] (py_replace_char 0x2C 0x2E t) = [ph, pm, ps] \<and>
      py_float ph = Some h \<and> py_float pm = Some m \<and> py_float ps = Some sec \<longrightarrow>
      parse_srt_time t =
        Inr (fl_add (fl_add (fl_mul h (Finite 3600)) (fl_mul m (Finite 60))) sec)) \<and>
   (\<forall>ds. ds \<noteq> [] \<and> list_all is_digit ds \<longrightarrow>
      py_float (0x2D # ds) = Some (round_double (- of_int (digits_number ds))))"
proof -
  define parts where "parts = py_split [0x3A] (py_replace_char 0x2C 0x2E t)"
  have three: "length parts = 3 \<Longrightarrow> set parts = {parts ! 0, parts ! 1, parts ! 2}"
    by (cases parts; simp; cases "tl parts"; simp; cases "tl (tl parts)"; auto)
  have "(isl (parse_srt_time t) \<longleftrightarrow>
      length parts \<noteq> 3 \<or> (\<exists>part \<in> set parts. py_float part = None)) \<and>
   (\<forall>ph pm ps h m sec.
      parts = [ph, pm, ps] \<and>
      py_float ph = Some h \<and> py_float pm = Some m \<and> py_float ps = Some sec \<longrightarrow>
      parse_srt_time t =
        Inr (fl_add (fl_add (fl_mul h (Finite 3600)) (fl_mul m (Finite 60))) sec))"
    using three
    by (auto simp: parse_srt_time_def Let_def parts_def [symmetric] split: option.splits)
  then show ?thesis
    unfolding parts_def using py_float_negative by blast
qed

theorem parse_srt_time_fails_iff_witness:
  "parse_srt_time (str ''02:03:04,500'') = Inr (Finite 7384.5) \<and>
   parse_srt_time (str ''00:00:01,100'') = Inr (Finite (2476979795053773 / 2251799813685248)) \<and>
   isl (parse_srt_time (str ''bad:00:00'')) \<and>
   isl (parse_srt_time (str ''00:01'')) \<and>
   py_float (str ''-1'') = Some (Finite (- 1))"
  using parse_srt_time_fails_iff [of "str ''02:03:04,500''"]
        parse_srt_time_fails_iff [of "str ''00:00:01,100''"]
        parse_srt_time_fails_iff [of "str ''bad:00:00''"]
        parse_srt_time_fails_iff [of "str ''00:01''"]
  by (simp add: parser_defs)

subsection \<open>C7: skipped blocks and fatal timestamps\<close>

text \<open>
  C7: a block with fewer than three lines, or without the delimiter in its timing
  line, is skipped and the catalog is that of the file without the block; a block
  with three lines and the delimiter whose start or end timestamp does not parse
  makes the whole build fail with \<open>SubtitleExtractionError\<close>, whatever the other
  blocks are.
\<close>

theorem malformed_blocks_dropped_bad_timestamps_fatal:
  "(too_short (py_strip b) \<or> lacks_delimiter (py_strip b) \<longrightarrow>
      parse_srt_block (py_strip b) = Inr None \<and>
      parse_blocks (bs1 @ b # bs2) acc = parse_blocks (bs1 @ bs2) acc \<and>
      (srt_blocks content1 = bs1 @ b # bs2 \<and> srt_blocks content2 = bs1 @ bs2 \<longrightarrow>
         parse_srt_file (Inr content1) = parse_srt_file (Inr content2))) \<and>
   (\<not> too_short (py_strip b) \<and> \<not> lacks_delimiter (py_strip b) \<and> timestamp_fails (py_strip b) \<longrightarrow>
      parse_srt_block (py_strip b) = Inl SubtitleExtractionError \<and>
      (b \<in> set (srt_blocks content) \<longrightarrow>
         parse_srt_file (Inr content) = Inl SubtitleExtractionError))"
proof (intro conjI impI)
  assume d: "too_short (py_strip b) \<or> lacks_delimiter (py_strip b)"
  from block_dropped [OF d] show none: "parse_srt_block (py_strip b) = Inr None" .
  show eq: "parse_blocks (bs1 @ b # bs2) acc = parse_blocks (bs1 @ bs2) acc" for acc
    by (simp add: parse_blocks_append none split: sum.splits)
  assume "srt_blocks content1 = bs1 @ b # bs2 \<and> srt_blocks content2 = bs1 @ bs2"
  then show "parse_srt_file (Inr content1) = parse_srt_file (Inr content2)"
    by (simp add: parse_srt_file_def eq)
next
  assume f: "\<not> too_short (py_strip b) \<and> \<not> lacks_delimiter (py_strip b) \<and> timestamp_fails (py_strip b)"
  then show err: "parse_srt_block (py_strip b) = Inl SubtitleExtractionError"
    by (simp add: block_fatal)
  assume "b \<in> set (srt_blocks content)"
  from parse_blocks_error [OF this err]
  show "parse_srt_file (Inr content) = Inl SubtitleExtractionError"
    by (simp add: parse_srt_file_def)
qed

theorem malformed_blocks_dropped_bad_timestamps_fatal_witness:
  "parse_srt_file (Inr srt_with_short_block) = parse_srt_file (Inr srt_without_short_block) \<and>
   parse_srt_file (Inr srt_without_short_block) =
     Inr (Ordered [\<lparr>start_time = Finite 1, end_time = Finite 2, text_of = str ''a''\<rparr>,
          \<lparr>start_time = Finite 5, end_time = Finite 6, text_of = str ''b''\<rparr>]) \<and>
   parse_srt_file (Inr srt_bad_timestamp) = Inl SubtitleExtractionError"
proof -
  have "parse_srt_file (Inr srt_with_short_block) = parse_srt_file (Inr srt_without_short_block)"
    using malformed_blocks_dropped_bad_timestamps_fatal
            [of "str ''2\<newline>stray''" "[str ''1\<newline>00:00:01,000 --> 00:00:02,000\<newline>a'']"
                "[str ''3\<newline>00:00:05,000 --> 00:00:06,000\<newline>b'']" "[]"
                srt_with_short_block srt_without_short_block "[]"]
          run_short_flags run_short_blocks
    by simp
  moreover have "parse_srt_file (Inr srt_bad_timestamp) = Inl SubtitleExtractionError"
    using malformed_blocks_dropped_bad_timestamps_fatal
            [of "str ''2\<newline>bad --> 00:00:02,000\<newline>b''" "[]" "[]" "[]" "[]" "[]"
                srt_bad_timestamp]
          run_bad_flags run_bad_blocks
    by simp
  moreover have "parse_srt_file (Inr srt_without_short_block) =
     Inr (Ordered [\<lparr>start_time = Finite 1, end_time = Finite 2, text_of = str ''a''\<rparr>,
          \<lparr>start_time = Finite 5, end_time = Finite 6, text_of = str ''b''\<rparr>])"
    by (simp add: srt_without_short_block_def parser_defs)
  ultimately show ?thesis by simp
qed

subsection \<open>C8: the catalog invariant\<close>

text \<open>
  C8 as stated fails: nothing compares the two timestamps of a block. A block with
  the timing line \<open>00:00:05,000 --> 00:00:02,000\<close> gives a catalog whose only
  interval has start 5 and end 2, so its end is not above its start.
\<close>

theorem reversed_interval_in_catalog:
  "parse_srt_file (Inr srt_reversed) =
     Inr (Ordered [\<lparr>start_time = Finite 5, end_time = Finite 2, text_of = str ''hi''\<rparr>]) \<and>
   \<not> fl_less (start_time \<lparr>start_time = Finite 5, end_time = Finite 2, text_of = str ''hi''\<rparr>)
              (end_time \<lparr>start_time = Finite 5, end_time = Finite 2, text_of = str ''hi''\<rparr>)"
  by (simp add: srt_reversed_def parser_defs)

text \<open>
  C8, amended: every result of the builder comes from the intervals of the
  accepted blocks. If no start time among them is NaN, the catalog is sorted
  ascending by start (\<^verbatim>\<open><=\<close> between every earlier and every later interval)
  and holds exactly these intervals, those of equal start in their input order
  (the sort is stable). If some start time is NaN, the result is a rearrangement
  of the intervals about whose order nothing is claimed. The builder does not
  check that an interval ends after it starts.
\<close>

theorem catalog_sorted_stable:
  assumes "parse_srt_file r = Inr result"
  shows "\<exists>content subtitles. r = Inr content \<and>
           parse_blocks (srt_blocks content) [] = Inr subtitles \<and>
           (case result of
              Ordered catalog \<Rightarrow>
                (\<forall>s \<in> set subtitles. start_time s \<noteq> NaN) \<and>
                sorted_wrt (\<lambda>a b. fl_le (start_time a) (start_time b)) catalog \<and>
                set catalog = set subtitles \<and> length catalog = length subtitles \<and>
                (\<forall>k. filter (\<lambda>s. start_time s = k) catalog =
                      filter (\<lambda>s. start_time s = k) subtitles)
            | Rearranged xs \<Rightarrow>
                xs = subtitles \<and> (\<exists>s \<in> set subtitles. start_time s = NaN))"
proof -
  from assms obtain content where r: "r = Inr content"
    by (cases r) (simp_all add: parse_srt_file_def)
  from assms r obtain subtitles where
    p: "parse_blocks (srt_blocks content) [] = Inr subtitles" and
    c: "result = py_sorted subtitles"
    by (auto simp: parse_srt_file_def split: sum.splits)
  show ?thesis
  proof (cases "\<exists>s \<in> set subtitles. start_time s = NaN")
    case True
    then have "result = Rearranged subtitles"
      by (simp add: c py_sorted_def list_ex_iff)
    with True r p show ?thesis by simp
  next
    case False
    then have o: "result = Ordered (sort_by_start subtitles)"
      by (simp add: c py_sorted_def list_ex_iff)
    from False have "sorted_wrt (\<lambda>a b. fl_le (start_time a) (start_time b))
                       (sort_by_start subtitles)"
      by (intro sort_by_start_sorted) simp
    with False r p o show ?thesis
      by (simp add: sort_by_start_set sort_by_start_length sort_by_start_stable)
  qed
qed

theorem catalog_sorted_stable_witness:
  "parse_srt_file (Inr srt_unordered) =
     Inr (Ordered [\<lparr>start_time = Finite (3 / 2), end_time = Finite 2, text_of = str ''b''\<rparr>,
          \<lparr>start_time = Finite 5, end_time = Finite 6, text_of = str ''a''\<rparr>,
          \<lparr>start_time = Finite 5, end_time = Finite 7, text_of = str ''c d''\<rparr>]) \<and>
   parse_blocks (srt_blocks srt_unordered) [] =
     Inr [\<lparr>start_time = Finite 5, end_time = Finite 6, text_of = str ''a''\<rparr>,
          \<lparr>start_time = Finite (3 / 2), end_time = Finite 2, text_of = str ''b''\<rparr>,
          \<lparr>start_time = Finite 5, end_time = Finite 7, text_of = str ''c d''\<rparr>] \<and>
   sorted_wrt (\<lambda>a b. fl_le (start_time a) (start_time b))
     [\<lparr>start_time = Finite (3 / 2), end_time = Finite 2, text_of = str ''b''\<rparr>,
      \<lparr>start_time = Finite 5, end_time = Finite 6, text_of = str ''a''\<rparr>,
      \<lparr>start_time = Finite 5, end_time = Finite 7, text_of = str ''c d''\<rparr>] \<and>
   parse_srt_file (Inr srt_nan) =
     Inr (Rearranged [\<lparr>start_time = Finite 2, end_time = Finite 5, text_of = str ''a''\<rparr>,
          \<lparr>start_time = NaN, end_time = Finite 2, text_of = str ''b''\<rparr>,
          \<lparr>start_time = Finite 1, end_time = Finite 2, text_of = str ''c''\<rparr>])"
  using catalog_sorted_stable [OF run_unordered] catalog_sorted_stable [OF run_nan]
        run_unordered run_nan run_unordered_blocks
  by simp


end
